theory Spec2Isabelle
  imports Main "HOL-Library.Word" "HOL-Library.Sublist"
begin

section \<open>Data model (frontend/types/index.ts)\<close>

text \<open>
  A JavaScript string is a sequence of UTF-16 code units. Most of the program only copies
  strings; \<open>String.prototype.trim\<close> and the truthiness test (\<open>!s\<close> holds exactly for the
  empty string) look inside them.
\<close>

type_synonym jsstring = "16 word list"

definition js_lit :: "string \<Rightarrow> jsstring" where
  "js_lit s = map (\<lambda>c. of_nat (of_char c)) s"

text \<open>Truthiness of a string: \<open>''\<close> is falsy, every other string is truthy.\<close>

definition truthy :: "jsstring \<Rightarrow> bool" where
  "truthy s = (s \<noteq> [])"

datatype Emotion = happy | sad | neutral | surprised | thoughtful

datatype Scene = indoor | outdoor | cafe | park

datatype Role = user | agent

text \<open>
  An optional field (\<open>session_id?: string\<close>, \<open>image_url?: string\<close>) is \<open>None\<close> when it is
  absent (undefined, or null in the JSON that was received).
\<close>

record ConversationRequest =
  user_id :: jsstring
  message :: jsstring
  session_id :: "jsstring option"

text \<open>
  \<open>affinity_level: number\<close>: the backend schema declares it an integer, and the reducer only
  copies it, so it is an \<open>int\<close> here.
\<close>

record ConversationResponse =
  r_session_id :: jsstring
  r_dialogue :: jsstring
  r_narration :: jsstring
  r_emotion :: Emotion
  r_scene :: Scene
  r_image_url :: "jsstring option"
  r_affinity_level :: int
  r_timestamp :: jsstring

record Message =
  role :: Role
  dialogue :: jsstring
  narration :: "jsstring option"
  timestamp :: jsstring

text \<open>\<open>sessionId: string | null\<close>: \<open>None\<close> is null.\<close>

record ChatState =
  messages :: "Message list"
  currentImageUrl :: jsstring
  isLoading :: bool
  isGeneratingImage :: bool
  affinityLevel :: int
  sessionId :: "jsstring option"

section \<open>The chat reducer (contexts/ChatContext)\<close>

datatype ChatAction =
    SEND_MESSAGE_START jsstring
  | SEND_MESSAGE_SUCCESS ConversationResponse
  | SEND_MESSAGE_ERROR
  | CLEAR_HISTORY

definition initialState :: ChatState where
  "initialState =
     \<lparr>messages = [], currentImageUrl = [], isLoading = False, isGeneratingImage = False,
      affinityLevel = 0, sessionId = None\<rparr>"

text \<open>
  \<open>a ?? b\<close> is \<open>b\<close> exactly when \<open>a\<close> is null or undefined; an empty string is kept.
\<close>

definition nullish :: "'a option \<Rightarrow> 'a \<Rightarrow> 'a" where
  "nullish a b = (case a of None \<Rightarrow> b | Some v \<Rightarrow> v)"

text \<open>
  \<open>chatReducer(state, action)\<close>. The \<open>SEND_MESSAGE_START\<close> branch evaluates
  \<open>new Date().toISOString()\<close>; that reading of the wall clock is the extra argument \<open>now\<close>.
  The action type is closed, so the \<open>default\<close> branch of the \<open>switch\<close> has no case here.
\<close>

fun chatReducer :: "jsstring \<Rightarrow> ChatState \<Rightarrow> ChatAction \<Rightarrow> ChatState" where
  "chatReducer now state (SEND_MESSAGE_START userMessage) =
     state\<lparr>isLoading := True,
           isGeneratingImage := True,
           messages := messages state @
             [\<lparr>role = user, dialogue = userMessage, narration = None, timestamp = now\<rparr>]\<rparr>"
| "chatReducer now state (SEND_MESSAGE_SUCCESS response) =
     state\<lparr>isLoading := False,
           isGeneratingImage := False,
           messages := messages state @
             [\<lparr>role = agent, dialogue = r_dialogue response,
               narration = Some (r_narration response), timestamp = r_timestamp response\<rparr>],
           currentImageUrl := nullish (r_image_url response) (currentImageUrl state),
           affinityLevel := r_affinity_level response,
           sessionId := Some (r_session_id response)\<rparr>"
| "chatReducer now state SEND_MESSAGE_ERROR =
     state\<lparr>isLoading := False, isGeneratingImage := False\<rparr>"
| "chatReducer now state CLEAR_HISTORY = initialState"

section \<open>The message input (components/MessageInput)\<close>

text \<open>
  \<open>String.prototype.trim\<close> removes leading and trailing WhiteSpace and LineTerminator code
  points (ECMAScript, \<open>TrimString\<close>). All of them lie in the Basic Multilingual Plane, so the
  test is on single code units.
\<close>

definition isWhiteSpace :: "16 word \<Rightarrow> bool" where
  "isWhiteSpace c =
     (c \<in> set [0x0009, 0x000A, 0x000B, 0x000C, 0x000D, 0x0020, 0x00A0, 0x1680,
                0x2028, 0x2029, 0x202F, 0x205F, 0x3000, 0xFEFF]
      \<or> (0x2000 \<le> c \<and> c \<le> 0x200A))"

definition trim :: "jsstring \<Rightarrow> jsstring" where
  "trim s = rev (dropWhile isWhiteSpace (rev (dropWhile isWhiteSpace s)))"

text \<open>
  \<open>handleSend\<close> reads the component's \<open>message\<close> state and the \<open>isLoading\<close> prop. Its
  effects are the calls of \<open>onSend\<close> (the list of arguments, in order) and the \<open>message\<close>
  state afterwards (\<open>setMessage('')\<close> after a send, unchanged on the early return).
\<close>

definition handleSend :: "jsstring \<Rightarrow> bool \<Rightarrow> jsstring list \<times> jsstring" where
  "handleSend msg loading =
     (let trimmed = trim msg
      in if \<not> truthy trimmed \<or> loading then ([], msg)
         else ([trimmed], []))"

text \<open>\<open>handleKeyDown\<close>: Enter without Shift sends; every other key does nothing here.\<close>

definition handleKeyDown :: "jsstring \<Rightarrow> bool \<Rightarrow> jsstring \<Rightarrow> bool \<Rightarrow> jsstring list \<times> jsstring" where
  "handleKeyDown key shiftKey msg loading =
     (if key = js_lit ''Enter'' \<and> \<not> shiftKey then handleSend msg loading else ([], msg))"

text \<open>The send button's \<open>disabled\<close> attribute.\<close>

definition sendDisabled :: "jsstring \<Rightarrow> bool \<Rightarrow> bool" where
  "sendDisabled msg loading = (loading \<or> \<not> truthy (trim msg))"

section \<open>The API client (lib/api.ts)\<close>

text \<open>
  A rejected promise or a thrown exception is a left value. \<open>fetch\<close> rejects when no HTTP
  response arrives; \<open>response.json()\<close> rejects when the body is not JSON; the function itself
  throws \<open>Error(`API error: ${response.status}`)\<close>.
\<close>

datatype error = FetchFailed | ApiError nat | JsonSyntaxError

text \<open>
  The parts of the \<open>Response\<close> object that the client reads: \<open>ok\<close>, \<open>status\<close> and the outcome
  of \<open>json()\<close>. The cast \<open>as Promise<ConversationResponse>\<close> checks nothing; a parsed body is
  taken to have the declared type.
\<close>

record HttpResponse =
  ok :: bool
  status :: nat
  json :: "error + ConversationResponse"

text \<open>\<open>fetch\<close> posts the serialised request to the fixed endpoint: a function of the request.\<close>

type_synonym fetch = "ConversationRequest \<Rightarrow> error + HttpResponse"

definition sendConversationMessage ::
    "fetch \<Rightarrow> ConversationRequest \<Rightarrow> error + ConversationResponse" where
  "sendConversationMessage fetch request =
     (case fetch request of
        Inl e \<Rightarrow> Inl e
      | Inr response \<Rightarrow>
          if \<not> ok response then Inl (ApiError (status response))
          else json response)"

section \<open>The chat provider (contexts/ChatContext)\<close>

text \<open>
  The request that \<open>sendMessage\<close> passes to \<open>sendConversationMessage\<close>;
  \<open>state.sessionId ?? undefined\<close> turns null into an absent field and keeps a string.
\<close>

definition sendMessage_request :: "ChatState \<Rightarrow> jsstring \<Rightarrow> ConversationRequest" where
  "sendMessage_request state msg =
     \<lparr>user_id = js_lit ''demo-user'',
      message = msg,
      session_id = (case sessionId state of None \<Rightarrow> None | Some sid \<Rightarrow> Some sid)\<rparr>"

text \<open>
  \<open>sendMessage\<close>: dispatch \<open>SEND_MESSAGE_START\<close>, await the API call, dispatch
  \<open>SEND_MESSAGE_SUCCESS\<close> with the response, or \<open>SEND_MESSAGE_ERROR\<close> in the \<open>catch\<close>.
  The request is built from the state the provider rendered with, before the first dispatch.
  Turns run one after another (the input is disabled while a turn is loading).
\<close>

definition sendMessage :: "jsstring \<Rightarrow> fetch \<Rightarrow> ChatState \<Rightarrow> jsstring \<Rightarrow> ChatState" where
  "sendMessage now fetch state msg =
     (let started = chatReducer now state (SEND_MESSAGE_START msg)
      in case sendConversationMessage fetch (sendMessage_request state msg) of
           Inr response \<Rightarrow> chatReducer now started (SEND_MESSAGE_SUCCESS response)
         | Inl e \<Rightarrow> chatReducer now started SEND_MESSAGE_ERROR)"

definition clearHistory :: "ChatState \<Rightarrow> ChatState" where
  "clearHistory state = chatReducer [] state CLEAR_HISTORY"

text \<open>
  What happens to a provider over time: the user sends a message (with the clock reading and
  the behaviour of the network on that turn) or clears the history.
\<close>

datatype event = Send jsstring fetch jsstring | Clear

fun step :: "ChatState \<Rightarrow> event \<Rightarrow> ChatState" where
  "step state (Send now fetch msg) = sendMessage now fetch state msg"
| "step state Clear = clearHistory state"

definition run :: "event list \<Rightarrow> ChatState" where
  "run evs = foldl step initialState evs"

section \<open>The character image (components/CharacterImageDisplay.tsx)\<close>

text \<open>What the card shows: the skeleton, an \<open>img\<close> element with its \<open>src\<close>, or the placeholder text.\<close>

datatype rendered = Skeleton | Img jsstring | Placeholder

text \<open>\<open>API_BASE_URL\<close> comes from the environment; it is a parameter.\<close>

definition resolveImageUrl :: "jsstring \<Rightarrow> jsstring \<Rightarrow> jsstring" where
  "resolveImageUrl API_BASE_URL imagePath =
     (if prefix (js_lit ''http'') imagePath then imagePath else API_BASE_URL @ imagePath)"

text \<open>The component of \<open>components/CharacterImageDisplay.tsx\<close>.\<close>

definition CharacterImageDisplay :: "jsstring \<Rightarrow> jsstring \<Rightarrow> bool \<Rightarrow> rendered" where
  "CharacterImageDisplay API_BASE_URL imageUrl isGenerating =
     (if isGenerating \<and> \<not> truthy imageUrl then Skeleton
      else if truthy imageUrl then Img (resolveImageUrl API_BASE_URL imageUrl)
      else Placeholder)"

text \<open>
  The second text of the component in the same file, which tests \<open>isGenerating\<close> alone and
  passes \<open>imageUrl\<close> to \<open>src\<close> as it is.
\<close>

definition CharacterImageDisplay_v2 :: "jsstring \<Rightarrow> bool \<Rightarrow> rendered" where
  "CharacterImageDisplay_v2 imageUrl isGenerating =
     (if isGenerating then Skeleton
      else if truthy imageUrl then Img imageUrl
      else Placeholder)"

definition rendersImg :: "rendered \<Rightarrow> bool" where
  "rendersImg r = (case r of Img src \<Rightarrow> True | _ \<Rightarrow> False)"

section \<open>The Trigger Policy\<close>

text \<open>
  Modelled from the spec: the emotions of the structured model output. The backend, where
  the Trigger Policy lives, is not among the source files; its design notes list eight
  emotions.
\<close>

datatype ModelEmotion =
  e_happy | e_excited | e_neutral | e_thoughtful | e_sad | e_angry | e_surprised | e_embarrassed

text \<open>Modelled from the spec: the emotion categories, which the backend would define.\<close>

datatype EmotionCategory = c_positive | c_neutral | c_negative | c_expressive

text \<open>
  Modelled from the spec: \<open>category(emotion)\<close>, with no code among the source files. Every
  emotion has exactly one category; the grouping is that of the design notes (positive:
  happy, excited; neutral: neutral, thoughtful; negative: sad, angry; expressive: surprised,
  embarrassed).
\<close>

fun category :: "ModelEmotion \<Rightarrow> EmotionCategory" where
  "category e_happy = c_positive"
| "category e_excited = c_positive"
| "category e_neutral = c_neutral"
| "category e_thoughtful = c_neutral"
| "category e_sad = c_negative"
| "category e_angry = c_negative"
| "category e_surprised = c_expressive"
| "category e_embarrassed = c_expressive"

text \<open>
  Modelled from the spec: the turn state that the policy compares (emotion, scene, affinity)
  and, on the current turn, the model's own important-event flag. The scene set is left open.
\<close>

record 'scene TurnState =
  t_emotion :: ModelEmotion
  t_scene :: 'scene
  t_affinity :: int
  t_importantEvent :: bool

text \<open>Modelled from the spec: the result of the policy, \<open>{ regenerateImage, writeMemory }\<close>.\<close>

record TriggerDecision =
  regenerateImage :: bool
  writeMemory :: bool

text \<open>Modelled from the spec: the image threshold of the absent policy, 10 by default.\<close>

definition AFFINITY_IMAGE_THRESHOLD :: int where
  "AFFINITY_IMAGE_THRESHOLD = 10"

text \<open>Modelled from the spec: the memory threshold of the absent policy, 10 by default.\<close>

definition AFFINITY_MEMORY_THRESHOLD :: int where
  "AFFINITY_MEMORY_THRESHOLD = 10"

text \<open>
  Modelled from the spec: \<open>evaluate(prev, curr)\<close> of the Trigger Policy, whose code is not
  among the source files. \<open>regenerateImage\<close> is true iff the category changed, or the scene
  changed, or \<open>abs(curr.affinity - prev.affinity)\<close> reaches the image threshold;
  \<open>writeMemory\<close> is true iff the same distance reaches the memory threshold or the
  important-event flag is set.
\<close>

definition evaluate_with ::
    "int \<Rightarrow> int \<Rightarrow> 'scene TurnState \<Rightarrow> 'scene TurnState \<Rightarrow> TriggerDecision" where
  "evaluate_with imageThreshold memoryThreshold prev cur =
     \<lparr>regenerateImage =
        (category (t_emotion cur) \<noteq> category (t_emotion prev)
         \<or> t_scene cur \<noteq> t_scene prev
         \<or> abs (t_affinity cur - t_affinity prev) \<ge> imageThreshold),
      writeMemory =
        (abs (t_affinity cur - t_affinity prev) \<ge> memoryThreshold
         \<or> t_importantEvent cur)\<rparr>"

text \<open>
  Modelled from the spec: \<open>evaluate(prev, curr)\<close> of the absent Trigger Policy with the
  default thresholds.
\<close>

definition evaluate :: "'scene TurnState \<Rightarrow> 'scene TurnState \<Rightarrow> TriggerDecision" where
  "evaluate prev cur =
     evaluate_with AFFINITY_IMAGE_THRESHOLD AFFINITY_MEMORY_THRESHOLD prev cur"

section \<open>Values used by the tests\<close>

text \<open>\<open>mockResponse\<close> of \<open>__tests__/contexts/chatReducer.test.ts\<close>.\<close>

definition mockResponse :: ConversationResponse where
  "mockResponse =
     \<lparr>r_session_id = js_lit ''session-abc'',
      r_dialogue = js_lit ''Hi there!'',
      r_narration = js_lit ''She smiled warmly.'',
      r_emotion = happy,
      r_scene = cafe,
      r_image_url = Some (js_lit ''/images/happy_cafe.png''),
      r_affinity_level = 15,
      r_timestamp = js_lit ''2026-02-23T10:00:00Z''\<rparr>"

text \<open>\<open>responseNoImage\<close> of the same test: \<open>{ ...mockResponse, image_url: undefined }\<close>.\<close>

definition responseNoImage :: ConversationResponse where
  "responseNoImage = mockResponse\<lparr>r_image_url := None\<rparr>"

text \<open>
  \<open>stateWithImage\<close> of the same test: the state after one \<open>SEND_MESSAGE_START\<close> (at some
  clock reading), with a previous image.
\<close>

definition stateWithImage :: ChatState where
  "stateWithImage =
     (chatReducer (js_lit ''2026-02-23T09:59:59.000Z'') initialState
        (SEND_MESSAGE_START (js_lit ''Hello'')))
       \<lparr>currentImageUrl := js_lit ''/images/prev.png''\<rparr>"

text \<open>A network that gives the same outcome to every request (a test double for \<open>fetch\<close>).\<close>

definition respondWith :: "error + HttpResponse \<Rightarrow> fetch" where
  "respondWith outcome request = outcome"

text \<open>An HTTP 200 response whose body parses to \<open>mockResponse\<close>.\<close>

definition okResponse :: HttpResponse where
  "okResponse = \<lparr>ok = True, status = 200, json = Inr mockResponse\<rparr>"

text \<open>An HTTP 200 response whose body is not JSON: \<open>json()\<close> rejects.\<close>

definition badJsonResponse :: HttpResponse where
  "badJsonResponse = \<lparr>ok = True, status = 200, json = Inl JsonSyntaxError\<rparr>"

section \<open>Properties of the reducer\<close>

text \<open>
  C1. For every chat state and every \<open>SEND_MESSAGE_SUCCESS\<close> action: a response without
  \<open>image_url\<close> leaves \<open>currentImageUrl\<close> as it was, and a response with an \<open>image_url\<close> makes
  \<open>currentImageUrl\<close> that value.
\<close>

theorem success_image_url:
  "(r_image_url response = None \<longrightarrow>
      currentImageUrl (chatReducer now state (SEND_MESSAGE_SUCCESS response))
        = currentImageUrl state) \<and>
   (\<forall>url. r_image_url response = Some url \<longrightarrow>
      currentImageUrl (chatReducer now state (SEND_MESSAGE_SUCCESS response)) = url)"
  by (simp add: nullish_def)

theorem success_image_url_witness:
  "r_image_url responseNoImage = None \<and>
   currentImageUrl (chatReducer [] stateWithImage (SEND_MESSAGE_SUCCESS responseNoImage))
     = js_lit ''/images/prev.png'' \<and>
   r_image_url mockResponse = Some (js_lit ''/images/happy_cafe.png'') \<and>
   currentImageUrl (chatReducer [] stateWithImage (SEND_MESSAGE_SUCCESS mockResponse))
     = js_lit ''/images/happy_cafe.png''"
proof -
  have none: "r_image_url responseNoImage = None"
    by (simp add: responseNoImage_def)
  have some: "r_image_url mockResponse = Some (js_lit ''/images/happy_cafe.png'')"
    by (simp add: mockResponse_def)
  have prev: "currentImageUrl stateWithImage = js_lit ''/images/prev.png''"
    by (simp add: stateWithImage_def)
  from none some prev
    success_image_url [of responseNoImage "[]" stateWithImage]
    success_image_url [of mockResponse "[]" stateWithImage]
  show ?thesis by simp
qed

text \<open>
  C4. As stated (every affinity value written into stored state is clamped to [0, 100]) the
  claim fails on the reducer, the one place of the frontend that writes an affinity: it stores
  the response's \<open>affinity_level\<close> as received. A response carrying 150 is stored as 150.
\<close>

theorem affinity_not_clamped_counterexample:
  "affinityLevel (chatReducer [] initialState
      (SEND_MESSAGE_SUCCESS (mockResponse\<lparr>r_affinity_level := 150\<rparr>))) = 150 \<and>
   \<not> affinityLevel (chatReducer [] initialState
      (SEND_MESSAGE_SUCCESS (mockResponse\<lparr>r_affinity_level := 150\<rparr>))) \<le> 100"
  by simp

text \<open>
  C4, amended. The reducer writes the response's \<open>affinity_level\<close> unchanged: after
  \<open>SEND_MESSAGE_SUCCESS\<close> the stored level equals the response's \<open>affinity_level\<close>, whatever
  its value (\<open>SEND_MESSAGE_START\<close> and \<open>SEND_MESSAGE_ERROR\<close> keep the stored level and
  \<open>CLEAR_HISTORY\<close> resets it to 0). So after \<open>SEND_MESSAGE_SUCCESS\<close> the stored level lies in
  [0, 100] exactly when the response's does; and for every action, if the stored level lay in
  [0, 100] before and the response of a \<open>SEND_MESSAGE_SUCCESS\<close> carries a level in [0, 100],
  the stored level lies in [0, 100] after.
\<close>

theorem affinity_range:
  "affinityLevel (chatReducer now state (SEND_MESSAGE_SUCCESS response))
     = r_affinity_level response \<and>
   affinityLevel (chatReducer now state (SEND_MESSAGE_START userMessage))
     = affinityLevel state \<and>
   affinityLevel (chatReducer now state SEND_MESSAGE_ERROR) = affinityLevel state \<and>
   affinityLevel (chatReducer now state CLEAR_HISTORY) = 0 \<and>
   (0 \<le> affinityLevel (chatReducer now state (SEND_MESSAGE_SUCCESS response)) \<and>
    affinityLevel (chatReducer now state (SEND_MESSAGE_SUCCESS response)) \<le> 100
      \<longleftrightarrow> 0 \<le> r_affinity_level response \<and> r_affinity_level response \<le> 100) \<and>
   (0 \<le> affinityLevel state \<and> affinityLevel state \<le> 100 \<and>
    (\<forall>response. action = SEND_MESSAGE_SUCCESS response \<longrightarrow>
        0 \<le> r_affinity_level response \<and> r_affinity_level response \<le> 100)
    \<longrightarrow> 0 \<le> affinityLevel (chatReducer now state action) \<and>
        affinityLevel (chatReducer now state action) \<le> 100)"
  by (cases action) (simp_all add: initialState_def)

theorem affinity_range_witness:
  "0 \<le> affinityLevel initialState \<and> affinityLevel initialState \<le> 100 \<and>
   0 \<le> r_affinity_level mockResponse \<and> r_affinity_level mockResponse \<le> 100 \<and>
   affinityLevel (chatReducer [] initialState (SEND_MESSAGE_SUCCESS mockResponse)) = 15 \<and>
   0 \<le> affinityLevel (chatReducer [] initialState (SEND_MESSAGE_SUCCESS mockResponse)) \<and>
   affinityLevel (chatReducer [] initialState (SEND_MESSAGE_SUCCESS mockResponse)) \<le> 100"
proof -
  have st: "0 \<le> affinityLevel initialState \<and> affinityLevel initialState \<le> 100"
    by (simp add: initialState_def)
  have resp: "0 \<le> r_affinity_level mockResponse \<and> r_affinity_level mockResponse \<le> 100"
    by (simp add: mockResponse_def)
  have level: "r_affinity_level mockResponse = 15"
    by (simp add: mockResponse_def)
  from st resp level
    affinity_range [where now = "[]" and state = initialState and response = mockResponse
      and action = "SEND_MESSAGE_SUCCESS mockResponse"]
  show ?thesis by simp
qed

text \<open>
  C5. For every chat state and every \<open>SEND_MESSAGE_SUCCESS\<close> action: the new \<open>affinityLevel\<close>
  is the response's \<open>affinity_level\<close>, the new \<open>sessionId\<close> is the response's \<open>session_id\<close>,
  and the message list is the old one followed by exactly one agent message with the
  response's dialogue, narration and timestamp.
\<close>

theorem success_fields:
  "affinityLevel (chatReducer now state (SEND_MESSAGE_SUCCESS response))
     = r_affinity_level response \<and>
   sessionId (chatReducer now state (SEND_MESSAGE_SUCCESS response))
     = Some (r_session_id response) \<and>
   messages (chatReducer now state (SEND_MESSAGE_SUCCESS response))
     = messages state @
         [\<lparr>role = agent, dialogue = r_dialogue response,
           narration = Some (r_narration response), timestamp = r_timestamp response\<rparr>]"
  by simp

text \<open>
  C8. As stated (equal (state, action) pairs give equal states, in particular for
  \<open>SEND_MESSAGE_START\<close>) the claim fails: the \<open>SEND_MESSAGE_START\<close> branch reads the clock,
  so the same state and action give different states at different times.
\<close>

theorem chatReducer_clock_counterexample:
  "chatReducer (js_lit ''2026-02-23T10:00:00.000Z'') initialState
       (SEND_MESSAGE_START (js_lit ''Hello''))
   \<noteq> chatReducer (js_lit ''2026-02-23T10:00:01.000Z'') initialState
       (SEND_MESSAGE_START (js_lit ''Hello''))"
  by (simp add: initialState_def js_lit_def)

text \<open>
  C8, amended. The reducer returns a new state and leaves its input as it was. For every
  action other than \<open>SEND_MESSAGE_START\<close> the result depends on the state and the action
  alone, whatever the clock reads. For \<open>SEND_MESSAGE_START\<close> two calls with the same state and
  user message agree on everything but the timestamp of the appended user message, which is
  the time of the call.
\<close>

theorem chatReducer_clock:
  "((\<forall>m. action \<noteq> SEND_MESSAGE_START m) \<longrightarrow>
      chatReducer now1 state action = chatReducer now2 state action) \<and>
   chatReducer now1 state (SEND_MESSAGE_START m) =
     (chatReducer now2 state (SEND_MESSAGE_START m))
       \<lparr>messages := messages state @
          [\<lparr>role = user, dialogue = m, narration = None, timestamp = now1\<rparr>]\<rparr>"
  by (cases action) simp_all

theorem chatReducer_clock_witness:
  "(\<forall>m. SEND_MESSAGE_SUCCESS mockResponse \<noteq> SEND_MESSAGE_START m) \<and>
   chatReducer (js_lit ''2026-02-23T10:00:00.000Z'') stateWithImage
       (SEND_MESSAGE_SUCCESS mockResponse)
   = chatReducer (js_lit ''2026-02-23T10:00:01.000Z'') stateWithImage
       (SEND_MESSAGE_SUCCESS mockResponse)"
  using chatReducer_clock [of "SEND_MESSAGE_SUCCESS mockResponse"
      "js_lit ''2026-02-23T10:00:00.000Z''" stateWithImage
      "js_lit ''2026-02-23T10:00:01.000Z''"]
  by simp

text \<open>
  C9. For every chat state, \<open>SEND_MESSAGE_ERROR\<close> sets \<open>isLoading\<close> and \<open>isGeneratingImage\<close>
  to false and changes no other field: messages, \<open>currentImageUrl\<close>, \<open>affinityLevel\<close> and
  \<open>sessionId\<close> are those of the state before.
\<close>

theorem error_frame:
  "chatReducer now state SEND_MESSAGE_ERROR
     = state\<lparr>isLoading := False, isGeneratingImage := False\<rparr> \<and>
   isLoading (chatReducer now state SEND_MESSAGE_ERROR) = False \<and>
   isGeneratingImage (chatReducer now state SEND_MESSAGE_ERROR) = False \<and>
   messages (chatReducer now state SEND_MESSAGE_ERROR) = messages state \<and>
   currentImageUrl (chatReducer now state SEND_MESSAGE_ERROR) = currentImageUrl state \<and>
   affinityLevel (chatReducer now state SEND_MESSAGE_ERROR) = affinityLevel state \<and>
   sessionId (chatReducer now state SEND_MESSAGE_ERROR) = sessionId state"
  by simp

section \<open>Properties of the message input\<close>

lemma dropWhile_all_satisfy:
  "(\<forall>x\<in>set (dropWhile P xs). P x) \<longleftrightarrow> dropWhile P xs = []"
proof
  assume all: "\<forall>x\<in>set (dropWhile P xs). P x"
  show "dropWhile P xs = []"
  proof (rule ccontr)
    assume ne: "dropWhile P xs \<noteq> []"
    then have "\<not> P (hd (dropWhile P xs))" by (rule hd_dropWhile)
    moreover from ne have "hd (dropWhile P xs) \<in> set (dropWhile P xs)" by simp
    ultimately show False using all by blast
  qed
qed (auto dest: set_dropWhileD)

text \<open>The trimmed form is empty exactly for the strings made of white space only.\<close>

lemma trim_empty_iff: "trim s = [] \<longleftrightarrow> (\<forall>c\<in>set s. isWhiteSpace c)"
  by (simp add: trim_def dropWhile_eq_Nil_conv dropWhile_all_satisfy)

lemma sendDisabled_iff: "sendDisabled msg loading \<longleftrightarrow> loading \<or> trim msg = []"
  by (simp add: sendDisabled_def truthy_def)

text \<open>
  C3. For every input whose trimmed form is empty, the send handler does not call \<open>onSend\<close>
  (by the button or by the Enter key, loading or not); for every input whose trimmed form is
  not empty, with \<open>isLoading\<close> false, it calls \<open>onSend\<close> once, with the trimmed string.
\<close>

theorem handleSend_trim:
  "(trim msg = [] \<longrightarrow>
      fst (handleSend msg loading) = [] \<and>
      fst (handleKeyDown key shiftKey msg loading) = []) \<and>
   (trim msg \<noteq> [] \<and> \<not> loading \<longrightarrow> fst (handleSend msg loading) = [trim msg])"
  by (simp add: handleSend_def handleKeyDown_def truthy_def Let_def)

theorem handleSend_trim_witness:
  "trim (js_lit ''   '') = [] \<and>
   fst (handleSend (js_lit ''   '') False) = [] \<and>
   trim (js_lit ''  Hello!  '') = js_lit ''Hello!'' \<and>
   trim (js_lit ''  Hello!  '') \<noteq> [] \<and>
   fst (handleSend (js_lit ''  Hello!  '') False) = [js_lit ''Hello!'']"
proof -
  have blank: "trim (js_lit ''   '') = []"
    by (simp add: trim_def js_lit_def isWhiteSpace_def)
  have hello: "trim (js_lit ''  Hello!  '') = js_lit ''Hello!''"
    by (simp add: trim_def js_lit_def isWhiteSpace_def)
  have nonempty: "js_lit ''Hello!'' \<noteq> []"
    by (simp add: js_lit_def)
  from blank hello nonempty
    handleSend_trim [of "js_lit ''   ''" False]
    handleSend_trim [of "js_lit ''  Hello!  ''" False]
  show ?thesis by simp
qed

section \<open>Properties of the API client\<close>

text \<open>
  C7. As stated (it throws if and only if the HTTP response is not ok) the claim fails: on an
  ok response whose body is not JSON the rejection of \<open>response.json()\<close> propagates, so the
  function throws although the response is ok.
\<close>

theorem sendConversationMessage_counterexample:
  "ok badJsonResponse \<and>
   sendConversationMessage (respondWith (Inr badJsonResponse))
       (sendMessage_request initialState (js_lit ''Hello''))
     = Inl JsonSyntaxError"
  by (simp add: sendConversationMessage_def respondWith_def badJsonResponse_def)

text \<open>
  C7, amended. When \<open>fetch\<close> rejects, the rejection propagates; when the HTTP response is not
  ok, the function throws the API error with the status; when the response is ok, the result
  is that of \<open>response.json()\<close>. So it returns a parsed response exactly when there is an ok
  response whose body parses to it, and throws in every other case.
\<close>

theorem sendConversationMessage_cases:
  "(\<forall>e. fetch request = Inl e \<longrightarrow> sendConversationMessage fetch request = Inl e) \<and>
   (\<forall>response. fetch request = Inr response \<and> \<not> ok response \<longrightarrow>
      sendConversationMessage fetch request = Inl (ApiError (status response))) \<and>
   (\<forall>response. fetch request = Inr response \<and> ok response \<longrightarrow>
      sendConversationMessage fetch request = json response) \<and>
   (sendConversationMessage fetch request = Inr parsed \<longleftrightarrow>
      (\<exists>response. fetch request = Inr response \<and> ok response \<and> json response = Inr parsed))"
  by (auto simp: sendConversationMessage_def split: sum.splits)

theorem sendConversationMessage_cases_witness:
  "respondWith (Inl FetchFailed) (sendMessage_request initialState (js_lit ''Hello''))
     = Inl FetchFailed \<and>
   sendConversationMessage (respondWith (Inl FetchFailed))
       (sendMessage_request initialState (js_lit ''Hello'')) = Inl FetchFailed \<and>
   \<not> ok (okResponse\<lparr>ok := False, status := 503\<rparr>) \<and>
   sendConversationMessage (respondWith (Inr (okResponse\<lparr>ok := False, status := 503\<rparr>)))
       (sendMessage_request initialState (js_lit ''Hello'')) = Inl (ApiError 503) \<and>
   ok okResponse \<and> json okResponse = Inr mockResponse \<and>
   sendConversationMessage (respondWith (Inr okResponse))
       (sendMessage_request initialState (js_lit ''Hello'')) = Inr mockResponse"
proof -
  let ?req = "sendMessage_request initialState (js_lit ''Hello'')"
  have a: "respondWith (Inl FetchFailed) ?req = Inl FetchFailed"
    by (simp add: respondWith_def)
  have b: "respondWith (Inr (okResponse\<lparr>ok := False, status := 503\<rparr>)) ?req
             = Inr (okResponse\<lparr>ok := False, status := 503\<rparr>)"
    by (simp add: respondWith_def)
  have c: "respondWith (Inr okResponse) ?req = Inr okResponse"
    by (simp add: respondWith_def)
  have d: "ok okResponse \<and> json okResponse = Inr mockResponse"
    by (simp add: okResponse_def)
  from a b c d
    sendConversationMessage_cases [of "respondWith (Inl FetchFailed)" ?req]
    sendConversationMessage_cases
      [of "respondWith (Inr (okResponse\<lparr>ok := False, status := 503\<rparr>))" ?req]
    sendConversationMessage_cases [of "respondWith (Inr okResponse)" ?req]
  show ?thesis by simp
qed

section \<open>Properties of the chat provider\<close>

text \<open>
  C6. \<open>sendMessage\<close> sends \<open>session_id\<close> absent exactly when the stored \<open>sessionId\<close> is null,
  and sends the stored \<open>sessionId\<close> otherwise. The stored \<open>sessionId\<close> is null at the start and
  after \<open>clearHistory\<close>; after a turn it is the \<open>session_id\<close> of that turn's response when the
  call succeeded, and what it was before when the call failed. So every turn after a success
  carries the session identifier of the most recent successful response.
\<close>

theorem sendMessage_session_id:
  "(session_id (sendMessage_request state msg) = None \<longleftrightarrow> sessionId state = None) \<and>
   (\<forall>sid. sessionId state = Some sid \<longrightarrow>
      session_id (sendMessage_request state msg) = Some sid) \<and>
   sessionId (run []) = None \<and>
   sessionId (run (evs @ [Clear])) = None \<and>
   sessionId (run (evs @ [Send now fetch m])) =
     (case sendConversationMessage fetch (sendMessage_request (run evs) m) of
        Inr response \<Rightarrow> Some (r_session_id response)
      | Inl e \<Rightarrow> sessionId (run evs))"
  by (auto simp: sendMessage_request_def run_def sendMessage_def clearHistory_def
      initialState_def Let_def split: option.splits sum.splits)

theorem sendMessage_session_id_witness:
  "session_id (sendMessage_request (run []) (js_lit ''Hello'')) = None \<and>
   sessionId (run [Send [] (respondWith (Inr okResponse)) (js_lit ''Hello'')])
     = Some (js_lit ''session-abc'') \<and>
   session_id (sendMessage_request
       (run [Send [] (respondWith (Inr okResponse)) (js_lit ''Hello'')]) (js_lit ''Hello''))
     = Some (js_lit ''session-abc'') \<and>
   session_id (sendMessage_request
       (run [Send [] (respondWith (Inr okResponse)) (js_lit ''Hello''),
             Send [] (respondWith (Inl FetchFailed)) (js_lit ''Hello'')]) (js_lit ''Hello''))
     = Some (js_lit ''session-abc'')"
proof -
  let ?m = "js_lit ''Hello''"
  let ?ok = "Send [] (respondWith (Inr okResponse)) ?m"
  let ?ko = "Send [] (respondWith (Inl FetchFailed)) ?m"
  have first: "sessionId (run []) = None"
    using sendMessage_session_id
      [of initialState ?m "[]" "[]" "respondWith (Inr okResponse)" ?m]
    by simp
  have ok: "sessionId (run [?ok]) = Some (js_lit ''session-abc'')"
    using sendMessage_session_id
      [of initialState ?m "[]" "[]" "respondWith (Inr okResponse)" ?m]
    by (simp add: sendConversationMessage_def respondWith_def okResponse_def mockResponse_def)
  have ko: "sessionId (run [?ok, ?ko]) = Some (js_lit ''session-abc'')"
    using sendMessage_session_id
      [of initialState ?m "[?ok]" "[]" "respondWith (Inl FetchFailed)" ?m] ok
    by (simp add: sendConversationMessage_def respondWith_def)
  from first ok ko
    sendMessage_session_id [of "run []" ?m]
    sendMessage_session_id [of "run [?ok]" ?m]
    sendMessage_session_id [of "run [?ok, ?ko]" ?m]
  show ?thesis by simp
qed

section \<open>Properties of the character image\<close>

text \<open>The component shows an image whenever \<open>imageUrl\<close> is not empty, generating or not.\<close>

lemma CharacterImageDisplay_cases:
  "CharacterImageDisplay base imageUrl isGenerating =
     (if imageUrl \<noteq> [] then Img (resolveImageUrl base imageUrl)
      else if isGenerating then Skeleton else Placeholder)"
  by (simp add: CharacterImageDisplay_def truthy_def)

text \<open>
  The second text of the component shows the skeleton whenever \<open>isGenerating\<close> is true, an
  image only when it is false and \<open>imageUrl\<close> is not empty, and the placeholder otherwise.
\<close>

lemma CharacterImageDisplay_v2_cases:
  "(isGenerating \<longrightarrow> CharacterImageDisplay_v2 imageUrl isGenerating = Skeleton) \<and>
   (rendersImg (CharacterImageDisplay_v2 imageUrl isGenerating)
      \<longleftrightarrow> \<not> isGenerating \<and> imageUrl \<noteq> []) \<and>
   (\<not> isGenerating \<and> imageUrl = [] \<longrightarrow>
      CharacterImageDisplay_v2 imageUrl isGenerating = Placeholder)"
  by (simp add: CharacterImageDisplay_v2_def truthy_def rendersImg_def)

text \<open>
  C10. The claim (with \<open>isGenerating\<close> true the skeleton is rendered and no \<open>img\<close> element, for
  every \<open>imageUrl\<close>) is what the component's test asks for, and the component does not do it:
  with \<open>imageUrl = "/images/test.png"\<close> and \<open>isGenerating = true\<close>, the input of the test
  "should not show image when generating", it renders the \<open>img\<close> element and no skeleton.
\<close>

theorem CharacterImageDisplay_generating_with_image:
  "CharacterImageDisplay (js_lit ''http://localhost:8000'') (js_lit ''/images/test.png'') True
     = Img (js_lit ''http://localhost:8000/images/test.png'')"
  by (simp add: CharacterImageDisplay_def truthy_def resolveImageUrl_def js_lit_def)

section \<open>Properties of the Trigger Policy\<close>

text \<open>
  C2. For all previous and current turn states, \<open>evaluate(prev, curr)\<close> returns
  \<open>regenerateImage = true\<close> if and only if the emotion categories differ, or the scenes
  differ, or the affinity moved by at least the image threshold, 10 by default, in either
  direction.
\<close>

theorem evaluate_regenerateImage:
  "(regenerateImage (evaluate prev cur) \<longleftrightarrow>
      (category (t_emotion cur) \<noteq> category (t_emotion prev)
       \<or> t_scene cur \<noteq> t_scene prev
       \<or> t_affinity cur - t_affinity prev \<ge> 10
       \<or> t_affinity prev - t_affinity cur \<ge> 10)) \<and>
   (regenerateImage (evaluate_with imageThreshold memoryThreshold prev cur) \<longleftrightarrow>
      (category (t_emotion cur) \<noteq> category (t_emotion prev)
       \<or> t_scene cur \<noteq> t_scene prev
       \<or> t_affinity cur - t_affinity prev \<ge> imageThreshold
       \<or> t_affinity prev - t_affinity cur \<ge> imageThreshold))"
  by (auto simp: evaluate_def evaluate_with_def AFFINITY_IMAGE_THRESHOLD_def)

theorem evaluate_regenerateImage_witness:
  "evaluate \<lparr>t_emotion = e_happy, t_scene = cafe, t_affinity = 30, t_importantEvent = False\<rparr>
            \<lparr>t_emotion = e_excited, t_scene = cafe, t_affinity = 32, t_importantEvent = False\<rparr>
     = \<lparr>regenerateImage = False, writeMemory = False\<rparr> \<and>
   regenerateImage (evaluate
       \<lparr>t_emotion = e_neutral, t_scene = indoor, t_affinity = 20, t_importantEvent = False\<rparr>
       \<lparr>t_emotion = e_happy, t_scene = indoor, t_affinity = 25, t_importantEvent = False\<rparr>)"
  using evaluate_regenerateImage [of
       "\<lparr>t_emotion = e_happy, t_scene = cafe, t_affinity = 30, t_importantEvent = False\<rparr>"
       "\<lparr>t_emotion = e_excited, t_scene = cafe, t_affinity = 32, t_importantEvent = False\<rparr>"
       10 10]
    evaluate_regenerateImage [of
       "\<lparr>t_emotion = e_neutral, t_scene = indoor, t_affinity = 20, t_importantEvent = False\<rparr>"
       "\<lparr>t_emotion = e_happy, t_scene = indoor, t_affinity = 25, t_importantEvent = False\<rparr>"
       10 10]
  by (simp add: evaluate_def evaluate_with_def AFFINITY_MEMORY_THRESHOLD_def)

end
